theory Spec2Isabelle
  imports Main
begin

section \<open>Data model\<close>

text \<open>
  The webhook reconciliation core of flask-headless-payments:
  \<^verbatim>\<open>mixins/subscription.py\<close>, \<^verbatim>\<open>mixins/webhook.py\<close>,
  \<^verbatim>\<open>managers/webhook_manager.py\<close> and the \<^verbatim>\<open>/webhook\<close> route of
  \<^verbatim>\<open>routes/payments.py\<close>.

  A \<^verbatim>\<open>datetime\<close> is an integer count of clock ticks; the code only compares
  datetimes with \<^verbatim>\<open><\<close> and tests them for \<^verbatim>\<open>None\<close>.
\<close>

type_synonym datetime = int

text \<open>
  The values a Stripe object holds under a key, as far as the code tells them apart:
  \<^verbatim>\<open>None\<close>, a boolean, a number, a string.
\<close>

datatype pyval = PNone | PBool bool | PInt int | PStr string

text \<open>\<^verbatim>\<open>event['data']['object']\<close>: a dictionary, kept as an association list.\<close>

type_synonym event_data = "(string \<times> pyval) list"

text \<open>\<^verbatim>\<open>d.get(k)\<close>: the value under the key, \<^verbatim>\<open>None\<close> when the key is absent.\<close>

definition dict_get :: "event_data \<Rightarrow> string \<Rightarrow> pyval" where
  "dict_get d k = (case map_of d k of None \<Rightarrow> PNone | Some v \<Rightarrow> v)"

text \<open>Python's truth value of such a value (\<^verbatim>\<open>if subscription_id:\<close>).\<close>

fun truthy :: "pyval \<Rightarrow> bool" where
  "truthy PNone = False"
| "truthy (PBool b) = b"
| "truthy (PInt i) = (i \<noteq> 0)"
| "truthy (PStr s) = (s \<noteq> [])"

text \<open>
  The user row: the primary key and the columns of \<^verbatim>\<open>SubscriptionMixin\<close>. Every
  mixin column is nullable (\<^verbatim>\<open>None\<close> in the mixin).
\<close>

record user =
  user_id :: nat
  stripe_customer_id :: "string option"
  stripe_subscription_id :: "string option"
  plan_name :: "string option"
  plan_status :: "string option"
  current_period_start :: "datetime option"
  current_period_end :: "datetime option"
  cancel_at_period_end :: "bool option"
  trial_start :: "datetime option"
  trial_end :: "datetime option"
  subscription_metadata :: "string option"

text \<open>
  The audit row of \<^verbatim>\<open>WebhookEventMixin\<close>. The columns \<^verbatim>\<open>id\<close> and
  \<^verbatim>\<open>created_at\<close> are filled by the database from the model class's column
  declarations; no code of the core reads or writes them, and a row is identified here
  by its position in the table.
\<close>

record webhook_event =
  stripe_event_id :: string
  event_type :: string
  data :: event_data
  processed :: bool
  processed_at :: "datetime option"
  error :: "string option"
  received_at :: "datetime option"

text \<open>The database: the two tables the core reads and writes.\<close>

record db =
  users :: "user list"
  webhook_events :: "webhook_event list"

text \<open>A verified Stripe event: \<^verbatim>\<open>event['id']\<close>, \<^verbatim>\<open>event['type']\<close>,
  \<^verbatim>\<open>event['data']['object']\<close>.\<close>

record stripe_event =
  ev_id :: string
  ev_type :: string
  ev_object :: event_data

section \<open>SubscriptionMixin\<close>

text \<open>
  \<^verbatim>\<open>
  def is_subscribed(self):
      if not self.plan_status:
          return False
      return self.plan_status in ['active', 'trialing']
  \<close>
  \<^verbatim>\<open>not self.plan_status\<close> holds for \<^verbatim>\<open>None\<close> and for the empty string.
\<close>

definition is_subscribed :: "user \<Rightarrow> bool" where
  "is_subscribed self =
     (case plan_status self of
        None \<Rightarrow> False
      | Some s \<Rightarrow> if s = [] then False else s \<in> set [''active'', ''trialing''])"

text \<open>
  \<^verbatim>\<open>
  def is_on_trial(self):
      if not self.trial_end:
          return False
      return datetime.utcnow() < self.trial_end and self.plan_status == 'trialing'
  \<close>
  The clock reading \<^verbatim>\<open>datetime.utcnow()\<close> is the first argument. A datetime is
  always true in Python, so \<^verbatim>\<open>not self.trial_end\<close> holds for \<^verbatim>\<open>None\<close> only.
\<close>

definition is_on_trial :: "datetime \<Rightarrow> user \<Rightarrow> bool" where
  "is_on_trial utcnow self =
     (case trial_end self of
        None \<Rightarrow> False
      | Some t \<Rightarrow> utcnow < t \<and> plan_status self = Some ''trialing'')"

section \<open>WebhookManager\<close>

text \<open>
  What a call leaves behind besides its effect on the database: it returned, or it raised
  an exception \<open>e\<close>, kept as the text \<^verbatim>\<open>str(e)\<close>. The value a handler returns is
  not kept: \<^verbatim>\<open>process_event\<close> discards it.
\<close>

datatype outcome = Returned | Raised string

text \<open>
  A handler is called as \<^verbatim>\<open>handler(event_data, db, user_model)\<close>. It is applied to
  the database as it stands at the call, so it may read both tables; its effect is the
  user table it leaves behind, and whether it raised. A handler is taken not to write the
  audit table: that table is \<^verbatim>\<open>process_event\<close>'s own. What the handler leaves is in
  place when the next \<^verbatim>\<open>db.session.commit()\<close> of \<^verbatim>\<open>process_event\<close> runs, on
  either path.
\<close>

type_synonym handler = "event_data \<Rightarrow> db \<Rightarrow> outcome \<times> user list"

text \<open>
  What \<^verbatim>\<open>stripe.Webhook.construct_event\<close> does with a payload, a signature header
  and a secret: it returns the event, raises \<^verbatim>\<open>ValueError\<close> (the payload cannot be
  decoded) or raises \<^verbatim>\<open>stripe.error.SignatureVerificationError\<close>.
\<close>

datatype constructed =
    Event stripe_event
  | ValueError string
  | SignatureVerificationError string

text \<open>
  The manager: its registry \<^verbatim>\<open>self.event_handlers\<close>, and the collaborators whose
  code is not part of the core, taken as parameters:
  \<^item> \<^verbatim>\<open>self.subscription_manager.update_user_subscription(user_id, subscription)\<close>,
    by its effect on the user table and whether it raises;
  \<^item> \<^verbatim>\<open>stripe.Subscription.retrieve(subscription_id)\<close>, a remote call that returns a
    subscription object or raises (\<open>Inl\<close> holds the message);
  \<^item> \<^verbatim>\<open>stripe.Webhook.construct_event\<close>.
\<close>

record webhook_manager =
  event_handlers :: "string \<rightharpoonup> handler"
  update_user_subscription :: "nat \<Rightarrow> event_data \<Rightarrow> user list \<Rightarrow> outcome \<times> user list"
  Subscription_retrieve :: "pyval \<Rightarrow> string + event_data"
  construct_event :: "string \<Rightarrow> string option \<Rightarrow> string \<Rightarrow> constructed"

text \<open>
  \<^verbatim>\<open>
  def verify_webhook(self, payload, sig_header, webhook_secret):
      try:
          event = stripe.Webhook.construct_event(payload, sig_header, webhook_secret)
          return event
      except ValueError as e:
          return None
      except stripe.error.SignatureVerificationError as e:
          return None
  \<close>
\<close>

definition verify_webhook ::
  "webhook_manager \<Rightarrow> string \<Rightarrow> string option \<Rightarrow> string \<Rightarrow> stripe_event option" where
  "verify_webhook self payload sig_header webhook_secret =
     (case construct_event self payload sig_header webhook_secret of
        Event event \<Rightarrow> Some event
      | ValueError e \<Rightarrow> None
      | SignatureVerificationError e \<Rightarrow> None)"

text \<open>\<^verbatim>\<open>self.event_handlers[event_type] = handler\<close>\<close>

definition register_handler :: "string \<Rightarrow> handler \<Rightarrow> webhook_manager \<Rightarrow> webhook_manager" where
  "register_handler etype h self =
     self\<lparr>event_handlers := (event_handlers self)(etype \<mapsto> h)\<rparr>"

subsection \<open>Looking a user up by customer id\<close>

text \<open>
  \<^verbatim>\<open>self.user_model.query.filter_by(stripe_customer_id=customer_id).first()\<close>: the
  first row whose column equals the value. The column holds a string or NULL, and
  \<^verbatim>\<open>filter_by\<close> with \<^verbatim>\<open>None\<close> selects the rows where it is NULL. Customer
  ids are strings: a boolean or a number under the key selects no row.
\<close>

fun matches_customer :: "pyval \<Rightarrow> user \<Rightarrow> bool" where
  "matches_customer PNone u = (stripe_customer_id u = None)"
| "matches_customer (PStr s) u = (stripe_customer_id u = Some s)"
| "matches_customer (PBool b) u = False"
| "matches_customer (PInt i) u = False"

text \<open>The position of the first row that satisfies the filter, if there is one.\<close>

fun first_index :: "('a \<Rightarrow> bool) \<Rightarrow> 'a list \<Rightarrow> nat option" where
  "first_index P [] = None"
| "first_index P (x # xs) =
     (if P x then Some 0 else map_option Suc (first_index P xs))"

definition query_first :: "pyval \<Rightarrow> user list \<Rightarrow> nat option" where
  "query_first customer_id us = first_index (matches_customer customer_id) us"

subsection \<open>The default handlers\<close>

text \<open>
  \<^verbatim>\<open>
  def _handle_checkout_completed(self, session):
      customer_id = session.get('customer')
      subscription_id = session.get('subscription')
      if subscription_id:
          subscription = stripe.Subscription.retrieve(subscription_id)
          user = self.user_model.query.filter_by(stripe_customer_id=customer_id).first()
          if user:
              self.subscription_manager.update_user_subscription(user.id, subscription)
  \<close>
\<close>

definition handle_checkout_completed :: "webhook_manager \<Rightarrow> handler" where
  "handle_checkout_completed self session d =
     (let customer_id = dict_get session ''customer'';
          subscription_id = dict_get session ''subscription''
      in if truthy subscription_id then
           (case Subscription_retrieve self subscription_id of
              Inl e \<Rightarrow> (Raised e, users d)
            | Inr subscription \<Rightarrow>
                (case query_first customer_id (users d) of
                   None \<Rightarrow> (Returned, users d)
                 | Some i \<Rightarrow>
                     update_user_subscription self (user_id (users d ! i)) subscription (users d)))
         else (Returned, users d))"

text \<open>
  \<^verbatim>\<open>
  def _handle_subscription_created(self, subscription):
      customer_id = subscription.get('customer')
      user = self.user_model.query.filter_by(stripe_customer_id=customer_id).first()
      if user:
          self.subscription_manager.update_user_subscription(user.id, subscription)
  \<close>
  and \<^verbatim>\<open>_handle_subscription_updated\<close> has the same body.
\<close>

definition handle_subscription_created :: "webhook_manager \<Rightarrow> handler" where
  "handle_subscription_created self subscription d =
     (let customer_id = dict_get subscription ''customer''
      in case query_first customer_id (users d) of
           None \<Rightarrow> (Returned, users d)
         | Some i \<Rightarrow>
             update_user_subscription self (user_id (users d ! i)) subscription (users d))"

definition handle_subscription_updated :: "webhook_manager \<Rightarrow> handler" where
  "handle_subscription_updated self subscription d =
     (let customer_id = dict_get subscription ''customer''
      in case query_first customer_id (users d) of
           None \<Rightarrow> (Returned, users d)
         | Some i \<Rightarrow>
             update_user_subscription self (user_id (users d ! i)) subscription (users d))"

text \<open>
  \<^verbatim>\<open>
  def _handle_subscription_deleted(self, subscription):
      customer_id = subscription.get('customer')
      user = self.user_model.query.filter_by(stripe_customer_id=customer_id).first()
      if user:
          user.plan_status = 'canceled'
          user.stripe_subscription_id = None
          self.db.session.commit()
  \<close>
\<close>

definition cancel_user :: "user \<Rightarrow> user" where
  "cancel_user u = u\<lparr>plan_status := Some ''canceled'', stripe_subscription_id := None\<rparr>"

definition handle_subscription_deleted :: "webhook_manager \<Rightarrow> handler" where
  "handle_subscription_deleted self subscription d =
     (let customer_id = dict_get subscription ''customer''
      in case query_first customer_id (users d) of
           None \<Rightarrow> (Returned, users d)
         | Some i \<Rightarrow> (Returned, (users d)[i := cancel_user (users d ! i)]))"

text \<open>
  \<^verbatim>\<open>
  def _handle_invoice_paid(self, invoice):
      logger.info(f"Invoice {invoice['id']} paid successfully")
  \<close>
  and \<^verbatim>\<open>_handle_invoice_failed\<close> logs likewise. Log lines are not part of the state;
  \<^verbatim>\<open>invoice['id']\<close> raises \<^verbatim>\<open>KeyError('id')\<close> when the key is absent, and
  \<^verbatim>\<open>str\<close> of that exception is the key in quotes.
\<close>

definition key_error_id :: string where
  "key_error_id = [CHR 0x27, CHR ''i'', CHR ''d'', CHR 0x27]"

definition handle_invoice_paid :: "webhook_manager \<Rightarrow> handler" where
  "handle_invoice_paid self invoice d =
     (case map_of invoice ''id'' of
        None \<Rightarrow> (Raised key_error_id, users d)
      | Some v \<Rightarrow> (Returned, users d))"

definition handle_invoice_failed :: "webhook_manager \<Rightarrow> handler" where
  "handle_invoice_failed self invoice d =
     (case map_of invoice ''id'' of
        None \<Rightarrow> (Raised key_error_id, users d)
      | Some v \<Rightarrow> (Returned, users d))"

text \<open>\<^verbatim>\<open>_handle_default_event\<close>: the chain of comparisons on the event type, in the
  source's order; a type with no default handler is logged and nothing else happens.\<close>

definition handle_default_event :: "webhook_manager \<Rightarrow> string \<Rightarrow> handler" where
  "handle_default_event self etype event_data d =
     (if etype = ''checkout.session.completed'' then handle_checkout_completed self event_data d
      else if etype = ''customer.subscription.created'' then handle_subscription_created self event_data d
      else if etype = ''customer.subscription.updated'' then handle_subscription_updated self event_data d
      else if etype = ''customer.subscription.deleted'' then handle_subscription_deleted self event_data d
      else if etype = ''invoice.payment_succeeded'' then handle_invoice_paid self event_data d
      else if etype = ''invoice.payment_failed'' then handle_invoice_failed self event_data d
      else (Returned, users d))"

subsection \<open>process\_event\<close>

text \<open>
  Modelled from the spec: the model class \<^verbatim>\<open>self.webhook_event_model\<close> that
  \<^verbatim>\<open>process_event\<close> instantiates is not part of the sources at hand (only
  \<^verbatim>\<open>WebhookEventMixin\<close> is). The call passes four keyword arguments; for the
  remaining columns the spec's \<open>recordReceived\<close> says the row is persisted with
  \<open>processed = false\<close>, and \<open>processed_at\<close> and \<open>error\<close> are nullable and unset.
\<close>

definition webhook_event_model :: "string \<Rightarrow> string \<Rightarrow> event_data \<Rightarrow> datetime \<Rightarrow> webhook_event" where
  "webhook_event_model sid etype event_data utcnow =
     \<lparr>stripe_event_id = sid, event_type = etype, data = event_data,
      processed = False, processed_at = None, error = None, received_at = Some utcnow\<rparr>"

text \<open>\<^verbatim>\<open>self.db.session.add(webhook_event); self.db.session.commit()\<close>: the row is
  appended to its table.\<close>

definition session_add :: "webhook_event \<Rightarrow> db \<Rightarrow> db" where
  "session_add webhook_event d = d\<lparr>webhook_events := webhook_events d @ [webhook_event]\<rparr>"

text \<open>
  The body of the \<^verbatim>\<open>try\<close> block up to the handler's return (lines 94 to 99):
  \<^verbatim>\<open>
  if event_type in self.event_handlers:
      self.event_handlers[event_type](event_data, self.db, self.user_model)
  else:
      self._handle_default_event(event_type, event_data)
  \<close>
\<close>

definition dispatch_handler :: "webhook_manager \<Rightarrow> string \<Rightarrow> handler" where
  "dispatch_handler self etype event_data d =
     (case event_handlers self etype of
        Some h \<Rightarrow> h event_data d
      | None \<Rightarrow> handle_default_event self etype event_data d)"

text \<open>
  \<^verbatim>\<open>
  def process_event(self, event):
      event_type = event['type']
      event_data = event['data']['object']
      webhook_event = self.webhook_event_model(
          stripe_event_id=event['id'], event_type=event_type,
          data=event_data, received_at=datetime.utcnow())
      self.db.session.add(webhook_event)
      self.db.session.commit()
      try:
          <dispatch>
          webhook_event.processed = True
          webhook_event.processed_at = datetime.utcnow()
          self.db.session.commit()
          return True
      except Exception as e:
          webhook_event.error = str(e)
          self.db.session.commit()
          return False
  \<close>
  The two readings of the clock are the arguments \<open>received_now\<close> and
  \<open>processed_now\<close>. The object \<^verbatim>\<open>webhook_event\<close> is the row at position \<open>row\<close>
  of the table. This is the run in which the database accepts each of the three commits:
  the gateway event id is new to the table and the handler leaves the session active.
  \<open>process_event_db\<close> below is the whole function, with the commits the database
  refuses.
\<close>

definition process_event ::
  "webhook_manager \<Rightarrow> datetime \<Rightarrow> datetime \<Rightarrow> stripe_event \<Rightarrow> db \<Rightarrow> bool \<times> db" where
  "process_event self received_now processed_now event d =
     (let etype = ev_type event;
          event_data = ev_object event;
          webhook_event = webhook_event_model (ev_id event) etype event_data received_now;
          row = length (webhook_events d);
          d1 = session_add webhook_event d
      in case dispatch_handler self etype event_data d1 of
           (Returned, us) \<Rightarrow>
             (True,
              d1\<lparr>users := us,
                 webhook_events := (webhook_events d1)
                   [row := webhook_event\<lparr>processed := True, processed_at := Some processed_now\<rparr>]\<rparr>)
         | (Raised e, us) \<Rightarrow>
             (False,
              d1\<lparr>users := us,
                 webhook_events := (webhook_events d1)[row := webhook_event\<lparr>error := Some e\<rparr>]\<rparr>))"

section \<open>The webhook route\<close>

text \<open>
  \<^verbatim>\<open>
  def webhook():
      payload = request.data
      sig_header = request.headers.get('Stripe-Signature')
      webhook_secret = config.get('STRIPE_WEBHOOK_SECRET')
      if not webhook_secret:
          return jsonify({'error': 'Webhook not configured'}), 500
      event = webhook_manager.verify_webhook(payload, sig_header, webhook_secret)
      if not event:
          return jsonify({'error': 'Invalid signature'}), 400
      success = webhook_manager.process_event(event)
      if success:
          return jsonify({'status': 'success'}), 200
      else:
          return jsonify({'error': 'Failed to process event'}), 500
  \<close>
  The response is kept as its status code. \<^verbatim>\<open>not webhook_secret\<close> holds for
  \<^verbatim>\<open>None\<close> and for the empty string; a constructed event has its three keys, so
  \<^verbatim>\<open>not event\<close> holds for \<^verbatim>\<open>None\<close> only.
\<close>

definition webhook ::
  "webhook_manager \<Rightarrow> string option \<Rightarrow> datetime \<Rightarrow> datetime \<Rightarrow>
   string \<Rightarrow> string option \<Rightarrow> db \<Rightarrow> nat \<times> db" where
  "webhook webhook_manager webhook_secret received_now processed_now payload sig_header d =
     (case webhook_secret of
        None \<Rightarrow> (500, d)
      | Some secret \<Rightarrow>
          if secret = [] then (500, d)
          else
            (case verify_webhook webhook_manager payload sig_header secret of
               None \<Rightarrow> (400, d)
             | Some event \<Rightarrow>
                 (case process_event webhook_manager received_now processed_now event d of
                    (success, d') \<Rightarrow> (if success then 200 else 500, d'))))"

definition client_error :: "nat \<Rightarrow> bool" where
  "client_error status = (400 \<le> status \<and> status < 500)"

section \<open>Queries\<close>

text \<open>The audit rows that carry a given gateway event id.\<close>

definition rows_with_id :: "string \<Rightarrow> db \<Rightarrow> webhook_event list" where
  "rows_with_id sid d = filter (\<lambda>r. stripe_event_id r = sid) (webhook_events d)"

text \<open>
  The event is on record as received and not processed: the last row of the table is the
  row \<^verbatim>\<open>process_event\<close> builds for it.
\<close>

definition on_record :: "stripe_event \<Rightarrow> datetime \<Rightarrow> db \<Rightarrow> bool" where
  "on_record event received_now d =
     (webhook_events d \<noteq> [] \<and>
      last (webhook_events d) =
        webhook_event_model (ev_id event) (ev_type event) (ev_object event) received_now)"

text \<open>
  The two outcomes a row can show: marked processed exactly when the processing time is
  set, and never both processed and carrying an error.
\<close>

definition outcome_exclusive :: "webhook_event \<Rightarrow> bool" where
  "outcome_exclusive r =
     ((processed r \<longleftrightarrow> processed_at r \<noteq> None) \<and> \<not> (processed r \<and> error r \<noteq> None))"

section \<open>The commits the database refuses\<close>

text \<open>
  The two exceptions \<^verbatim>\<open>db.session.commit()\<close> raises in \<^verbatim>\<open>process_event\<close>:
  \<^verbatim>\<open>sqlalchemy.exc.IntegrityError\<close>, when the row to insert breaks a constraint of its
  table, and \<^verbatim>\<open>sqlalchemy.exc.PendingRollbackError\<close>, when an earlier flush in the
  same session failed and \<^verbatim>\<open>rollback()\<close> has not been called since.
\<close>

datatype db_error = IntegrityError | PendingRollbackError

text \<open>
  The state in which the dispatched handler leaves \<^verbatim>\<open>db.session\<close>. It is
  \<open>Inactive\<close> when a flush or commit inside the handler failed (the database refused
  a write of \<^verbatim>\<open>update_user_subscription\<close>, say): the transaction is rolled back and
  the session refuses further work until \<^verbatim>\<open>rollback()\<close> is called.
  \<^verbatim>\<open>process_event\<close> never calls it.
\<close>

datatype session = Active | Inactive

text \<open>
  Modelled from the spec: the model class behind \<^verbatim>\<open>self.webhook_event_model\<close>, which
  declares the columns and constraints of the audit table, is not part of the sources at
  hand. The spec's data model declares the gateway event id of a WebhookEvent unique. So
  \<^verbatim>\<open>session.add(webhook_event); session.commit()\<close> stores the row when no row carries
  its gateway event id, and otherwise raises \<^verbatim>\<open>IntegrityError\<close> and stores nothing.
\<close>

definition session_add_unique :: "webhook_event \<Rightarrow> db \<Rightarrow> db_error + db" where
  "session_add_unique webhook_event d =
     (if rows_with_id (stripe_event_id webhook_event) d \<noteq> [] then Inl IntegrityError
      else Inr (session_add webhook_event d))"

text \<open>
  \<^verbatim>\<open>process_event\<close> with the commits the database refuses. The result is the value
  returned (\<open>Inr\<close>) or the exception that leaves the function (\<open>Inl\<close>), with the
  database as it then stands.
  \<^item> The first commit (line 91) is outside the \<^verbatim>\<open>try\<close> block: an
    \<^verbatim>\<open>IntegrityError\<close> leaves the function before any handler is called.
  \<^item> With the session left inactive, the commit of the \<^verbatim>\<open>try\<close> block (line 104)
    raises, the \<^verbatim>\<open>except\<close> branch is entered, and its own commit (line 112) raises
    again, outside any \<^verbatim>\<open>try\<close>: the exception leaves the function and neither
    \<^verbatim>\<open>processed\<close> nor \<^verbatim>\<open>error\<close> reaches the stored row. The user table is
    then the one the handler had committed.
  \<^item> Otherwise the run is the one of \<open>process_event\<close>.
\<close>

definition process_event_db ::
  "webhook_manager \<Rightarrow> datetime \<Rightarrow> datetime \<Rightarrow> stripe_event \<Rightarrow> session \<Rightarrow> db \<Rightarrow>
   (db_error + bool) \<times> db" where
  "process_event_db self received_now processed_now event after_handler d =
     (let etype = ev_type event;
          event_data = ev_object event;
          webhook_event = webhook_event_model (ev_id event) etype event_data received_now;
          row = length (webhook_events d)
      in case session_add_unique webhook_event d of
           Inl e \<Rightarrow> (Inl e, d)
         | Inr d1 \<Rightarrow>
             (case dispatch_handler self etype event_data d1 of
                (Returned, us) \<Rightarrow>
                  (case after_handler of
                     Active \<Rightarrow>
                       (Inr True,
                        d1\<lparr>users := us,
                           webhook_events := (webhook_events d1)
                             [row := webhook_event\<lparr>processed := True,
                                                    processed_at := Some processed_now\<rparr>]\<rparr>)
                   | Inactive \<Rightarrow> (Inl PendingRollbackError, d1\<lparr>users := us\<rparr>))
              | (Raised e, us) \<Rightarrow>
                  (case after_handler of
                     Active \<Rightarrow>
                       (Inr False,
                        d1\<lparr>users := us,
                           webhook_events := (webhook_events d1)
                             [row := webhook_event\<lparr>error := Some e\<rparr>]\<rparr>)
                   | Inactive \<Rightarrow> (Inl PendingRollbackError, d1\<lparr>users := us\<rparr>))))"

section \<open>Sample data\<close>

text \<open>Sample rows, events, collaborators and handlers, for evaluating the code.\<close>

definition alice :: user where
  "alice = \<lparr>user_id = 1, stripe_customer_id = Some ''cus_1'',
     stripe_subscription_id = Some ''sub_1'', plan_name = Some ''pro'',
     plan_status = Some ''active'', current_period_start = Some 100,
     current_period_end = Some 200, cancel_at_period_end = Some False,
     trial_start = Some 50, trial_end = Some 100, subscription_metadata = None\<rparr>"

definition bob :: user where
  "bob = \<lparr>user_id = 2, stripe_customer_id = Some ''cus_2'',
     stripe_subscription_id = Some ''sub_2'', plan_name = Some ''pro'',
     plan_status = Some ''trialing'', current_period_start = Some 100,
     current_period_end = Some 200, cancel_at_period_end = Some False,
     trial_start = Some 100, trial_end = Some 150, subscription_metadata = None\<rparr>"

definition db0 :: db where
  "db0 = \<lparr>users = [alice, bob], webhook_events = []\<rparr>"

text \<open>A sample subscription manager: it mirrors the payload's status onto the user.\<close>

definition mirror_status :: "nat \<Rightarrow> event_data \<Rightarrow> user list \<Rightarrow> outcome \<times> user list" where
  "mirror_status uid subscription us =
     (Returned,
      map (\<lambda>u. if user_id u = uid
                then u\<lparr>plan_status :=
                        (case dict_get subscription ''status'' of PStr s \<Rightarrow> Some s | _ \<Rightarrow> None)\<rparr>
                else u) us)"

definition no_such_subscription :: "pyval \<Rightarrow> string + event_data" where
  "no_such_subscription sid = Inl ''No such subscription''"

text \<open>A sample gateway check: an empty body is malformed, and a delivery verifies when
  its header equals the secret.\<close>

definition sample_construct_event :: "string \<Rightarrow> string option \<Rightarrow> string \<Rightarrow> constructed" where
  "sample_construct_event payload sig_header secret =
     (if payload = [] then ValueError ''Expecting value''
      else if sig_header = Some secret
      then Event \<lparr>ev_id = payload, ev_type = ''invoice.payment_failed'', ev_object = []\<rparr>
      else SignatureVerificationError ''No signatures found matching the expected signature'')"

definition manager0 :: webhook_manager where
  "manager0 = \<lparr>event_handlers = Map.empty, update_user_subscription = mirror_status,
     Subscription_retrieve = no_such_subscription, construct_event = sample_construct_event\<rparr>"

text \<open>Custom handlers: one that gives up on every event, one that does nothing, one that
  insists on the audit row.\<close>

definition failing_handler :: handler where
  "failing_handler event_data d = (Raised ''unknown customer'', users d)"

definition idle_handler :: handler where
  "idle_handler event_data d = (Returned, users d)"

definition audit_checking_handler :: handler where
  "audit_checking_handler event_data d =
     (if webhook_events d = [] then (Raised ''event not recorded'', users d)
      else (Returned, users d))"

text \<open>A subscription manager whose write the database refuses: the flush inside
  \<^verbatim>\<open>update_user_subscription\<close> fails and the exception reaches the caller.\<close>

definition update_flush_fails :: "nat \<Rightarrow> event_data \<Rightarrow> user list \<Rightarrow> outcome \<times> user list" where
  "update_flush_fails uid subscription us =
     (Raised ''(sqlite3.OperationalError) database is locked'', us)"

definition locked_manager :: webhook_manager where
  "locked_manager = manager0\<lparr>update_user_subscription := update_flush_fails\<rparr>"

definition deleted_event :: stripe_event where
  "deleted_event = \<lparr>ev_id = ''evt_1'', ev_type = ''customer.subscription.deleted'',
     ev_object = [(''id'', PStr ''sub_1''), (''customer'', PStr ''cus_1'')]\<rparr>"


definition created_event :: stripe_event where
  "created_event = \<lparr>ev_id = ''evt_5'', ev_type = ''customer.subscription.created'',
     ev_object = [(''id'', PStr ''sub_1''), (''customer'', PStr ''cus_1''),
                  (''status'', PStr ''active'')]\<rparr>"

definition invoice_event_no_id :: stripe_event where
  "invoice_event_no_id = \<lparr>ev_id = ''evt_4'', ev_type = ''invoice.payment_succeeded'',
     ev_object = [(''customer'', PStr ''cus_1'')]\<rparr>"

section \<open>Entitlement checks\<close>

text \<open>
  C7. For every user, \<^verbatim>\<open>is_subscribed()\<close> is true if and only if
  \<^verbatim>\<open>plan_status\<close> is \<^verbatim>\<open>'active'\<close> or \<^verbatim>\<open>'trialing'\<close>; for every other
  status, the unset one and the empty string included, it is false.
\<close>

theorem is_subscribed_iff:
  "is_subscribed u \<longleftrightarrow> plan_status u = Some ''active'' \<or> plan_status u = Some ''trialing''"
  by (auto simp: is_subscribed_def split: option.splits)

text \<open>
  C8. \<^verbatim>\<open>is_on_trial()\<close> is false whenever \<^verbatim>\<open>trial_end\<close> is unset; for a user
  whose \<^verbatim>\<open>plan_status\<close> is \<^verbatim>\<open>'trialing'\<close> and whose \<^verbatim>\<open>trial_end\<close> is set to
  \<open>t\<close>, it is true exactly when the clock reads strictly less than \<open>t\<close>, hence false
  at \<open>t\<close> and after it.
\<close>

theorem is_on_trial_trialing:
  "(trial_end u = None \<longrightarrow> \<not> is_on_trial now u) \<and>
   (plan_status u = Some ''trialing'' \<longrightarrow>
      (\<forall>t. trial_end u = Some t \<longrightarrow> (is_on_trial now u \<longleftrightarrow> now < t)))"
  by (simp add: is_on_trial_def)

theorem is_on_trial_trialing_witness:
  "plan_status bob = Some ''trialing'' \<and> trial_end bob = Some 150 \<and>
   is_on_trial 149 bob \<and> \<not> is_on_trial 150 bob \<and> \<not> is_on_trial 151 bob \<and>
   trial_end (bob\<lparr>trial_end := None\<rparr>) = None \<and> \<not> is_on_trial 149 (bob\<lparr>trial_end := None\<rparr>)"
  using is_on_trial_trialing [of bob 149] is_on_trial_trialing [of bob 150]
    is_on_trial_trialing [of bob 151] is_on_trial_trialing [of "bob\<lparr>trial_end := None\<rparr>" 149]
  by (simp add: bob_def)

section \<open>Lookup and bookkeeping lemmas\<close>

text \<open>The lookup returns the first row that satisfies the filter, or nothing when no row
  does.\<close>

lemma first_index_Some:
  "first_index P xs = Some i \<Longrightarrow> i < length xs \<and> P (xs ! i) \<and> (\<forall>j<i. \<not> P (xs ! j))"
proof (induction xs arbitrary: i)
  case Nil
  then show ?case by simp
next
  case (Cons x xs)
  show ?case
  proof (cases "P x")
    case True
    with Cons.prems show ?thesis by simp
  next
    case False
    with Cons.prems obtain k where k: "first_index P xs = Some k" "i = Suc k"
      by auto
    from Cons.IH[OF k(1)] False k(2) show ?thesis
      by (auto simp: less_Suc_eq_0_disj)
  qed
qed


text \<open>The two ways \<^verbatim>\<open>process_event\<close> ends, by what the dispatched handler did on
  the database that already holds the new row.\<close>

lemma process_event_Returned:
  assumes "dispatch_handler wm (ev_type ev) (ev_object ev)
             (session_add (webhook_event_model (ev_id ev) (ev_type ev) (ev_object ev) tr) d) = (Returned, us)"
  shows "process_event wm tr tp ev d =
           (True, \<lparr>users = us,
                   webhook_events = webhook_events d @
                     [(webhook_event_model (ev_id ev) (ev_type ev) (ev_object ev) tr)
                        \<lparr>processed := True, processed_at := Some tp\<rparr>]\<rparr>)"
  using assms by (simp add: process_event_def Let_def session_add_def)

lemma process_event_Raised:
  assumes "dispatch_handler wm (ev_type ev) (ev_object ev)
             (session_add (webhook_event_model (ev_id ev) (ev_type ev) (ev_object ev) tr) d) = (Raised e, us)"
  shows "process_event wm tr tp ev d =
           (False, \<lparr>users = us,
                   webhook_events = webhook_events d @
                     [(webhook_event_model (ev_id ev) (ev_type ev) (ev_object ev) tr)
                        \<lparr>error := Some e\<rparr>]\<rparr>)"
  using assms by (simp add: process_event_def Let_def session_add_def)

lemma process_event_cases:
  "process_event self tr tp event d =
     (case dispatch_handler self (ev_type event) (ev_object event)
             (session_add (webhook_event_model (ev_id event) (ev_type event) (ev_object event) tr) d) of
        (Returned, us) \<Rightarrow>
          (True, \<lparr>users = us, webhook_events = webhook_events d @
             [(webhook_event_model (ev_id event) (ev_type event) (ev_object event) tr)
                \<lparr>processed := True, processed_at := Some tp\<rparr>]\<rparr>)
      | (Raised e, us) \<Rightarrow>
          (False, \<lparr>users = us, webhook_events = webhook_events d @
             [(webhook_event_model (ev_id event) (ev_type event) (ev_object event) tr)
                \<lparr>error := Some e\<rparr>]\<rparr>))"
  by (simp add: process_event_def Let_def session_add_def split: prod.splits outcome.splits)

lemma users_session_add: "users (session_add r d) = users d"
  by (simp add: session_add_def)

lemma process_event_outcomes:
  "\<exists>r. webhook_events (snd (process_event self tr tp event d)) = webhook_events d @ [r] \<and>
       (if fst (process_event self tr tp event d)
        then processed r \<and> processed_at r = Some tp \<and> error r = None
        else \<not> processed r \<and> processed_at r = None \<and> error r \<noteq> None) \<and>
       outcome_exclusive r"
proof (cases "dispatch_handler self (ev_type event) (ev_object event)
             (session_add (webhook_event_model (ev_id event) (ev_type event) (ev_object event) tr) d)")
  case (Pair out us)
  show ?thesis
  proof (cases out)
    case Returned
    with Pair process_event_Returned [of self event tr d us tp] show ?thesis
      by (simp add: webhook_event_model_def outcome_exclusive_def)
  next
    case (Raised e)
    with Pair process_event_Raised [of self event tr d e us tp] show ?thesis
      by (simp add: webhook_event_model_def outcome_exclusive_def)
  qed
qed

lemma process_event_changes_db: "snd (process_event self tr tp event d) \<noteq> d"
proof
  assume "snd (process_event self tr tp event d) = d"
  then have "length (webhook_events (snd (process_event self tr tp event d))) = length (webhook_events d)"
    by simp
  then show False
    by (simp add: process_event_cases split: prod.splits outcome.splits)
qed

lemma deleted_once:
  "process_event manager0 1 2 deleted_event db0 =
     (True, \<lparr>users = [cancel_user alice, bob], webhook_events =
        [\<lparr>stripe_event_id = ''evt_1'', event_type = ''customer.subscription.deleted'',
          data = ev_object deleted_event, processed = True, processed_at = Some 2,
          error = None, received_at = Some 1\<rparr>]\<rparr>)"
proof -
  have "dispatch_handler manager0 (ev_type deleted_event) (ev_object deleted_event)
      (session_add (webhook_event_model (ev_id deleted_event) (ev_type deleted_event)
         (ev_object deleted_event) 1) db0) = (Returned, [cancel_user alice, bob])"
    by (simp add: dispatch_handler_def manager0_def handle_default_event_def
        handle_subscription_deleted_def query_first_def dict_get_def deleted_event_def db0_def
        session_add_def alice_def bob_def)
  from process_event_Returned [OF this] show ?thesis
    by (simp add: webhook_event_model_def db0_def deleted_event_def)
qed

text \<open>
  The whole function against the accepted run: a gateway event id already on record is
  refused before anything else happens; on a new id with the session left active the two
  agree; with the session left inactive the exception leaves the function and the row
  stays as it was inserted.
\<close>

lemma process_event_db_refused:
  "rows_with_id (ev_id event) d \<noteq> [] \<Longrightarrow>
   process_event_db self tr tp event s d = (Inl IntegrityError, d)"
  by (simp add: process_event_db_def session_add_unique_def webhook_event_model_def)

lemma process_event_db_active:
  "rows_with_id (ev_id event) d = [] \<Longrightarrow>
   process_event_db self tr tp event Active d =
     (Inr (fst (process_event self tr tp event d)), snd (process_event self tr tp event d))"
  by (simp add: process_event_db_def process_event_def session_add_unique_def
      webhook_event_model_def Let_def split: prod.splits outcome.splits)

lemma process_event_db_inactive:
  "rows_with_id (ev_id event) d = [] \<Longrightarrow>
   process_event_db self tr tp event Inactive d =
     (Inl PendingRollbackError,
      \<lparr>users = snd (dispatch_handler self (ev_type event) (ev_object event)
                 (session_add (webhook_event_model (ev_id event) (ev_type event)
                    (ev_object event) tr) d)),
       webhook_events = webhook_events d @
         [\<lparr>stripe_event_id = ev_id event, event_type = ev_type event, data = ev_object event,
           processed = False, processed_at = None, error = None, received_at = Some tr\<rparr>]\<rparr>)"
  by (simp add: process_event_db_def session_add_unique_def session_add_def
      webhook_event_model_def Let_def split: prod.splits outcome.splits)

lemma rows_with_id_recorded:
  "rows_with_id (ev_id event) d = [] \<Longrightarrow>
   rows_with_id sid (snd (process_event_db self tr tp event s d)) =
     rows_with_id sid d @
       (if sid = ev_id event
        then [last (webhook_events (snd (process_event_db self tr tp event s d)))] else [])"
  by (cases s)
     (simp_all add: process_event_db_active process_event_db_inactive process_event_cases
        rows_with_id_def webhook_event_model_def split: prod.splits outcome.splits)

lemma process_event_db_raise_paths:
  assumes "rows_with_id (ev_id event) d = []"
    and "fst (dispatch_handler self (ev_type event) (ev_object event)
           (session_add (webhook_event_model (ev_id event) (ev_type event) (ev_object event) tr) d))
         = Raised e"
  shows "fst (process_event_db self tr tp event Active d) = Inr False \<and>
         webhook_events (snd (process_event_db self tr tp event Active d)) =
           webhook_events d @
             [\<lparr>stripe_event_id = ev_id event, event_type = ev_type event, data = ev_object event,
               processed = False, processed_at = None, error = Some e, received_at = Some tr\<rparr>] \<and>
         fst (process_event_db self tr tp event Inactive d) = Inl PendingRollbackError \<and>
         webhook_events (snd (process_event_db self tr tp event Inactive d)) =
           webhook_events d @
             [\<lparr>stripe_event_id = ev_id event, event_type = ev_type event, data = ev_object event,
               processed = False, processed_at = None, error = None, received_at = Some tr\<rparr>]"
proof -
  obtain us where "dispatch_handler self (ev_type event) (ev_object event)
             (session_add (webhook_event_model (ev_id event) (ev_type event) (ev_object event) tr) d)
           = (Raised e, us)"
    using assms(2) by (cases "dispatch_handler self (ev_type event) (ev_object event)
             (session_add (webhook_event_model (ev_id event) (ev_type event) (ev_object event) tr) d)") simp
  from process_event_Raised [OF this, of tp] assms(1) show ?thesis
    by (simp add: process_event_db_active process_event_db_inactive webhook_event_model_def)
qed

lemma outcome_exclusive_db:
  assumes "\<forall>r \<in> set (webhook_events d). outcome_exclusive r"
  shows "\<forall>r \<in> set (webhook_events (snd (process_event_db self tr tp event s d))).
           outcome_exclusive r"
proof (cases "rows_with_id (ev_id event) d = []")
  case False
  with assms show ?thesis by (simp add: process_event_db_refused)
next
  case True
  show ?thesis
  proof (cases s)
    case Active
    from process_event_outcomes [of self tr tp event d] assms show ?thesis
      by (auto simp: process_event_db_active [OF True] Active)
  next
    case Inactive
    with assms show ?thesis
      by (auto simp: process_event_db_inactive [OF True] outcome_exclusive_def)
  qed
qed

lemma deleted_once_db:
  "process_event_db manager0 1 2 deleted_event Active db0 =
     (Inr True, \<lparr>users = [cancel_user alice, bob], webhook_events =
        [\<lparr>stripe_event_id = ''evt_1'', event_type = ''customer.subscription.deleted'',
          data = ev_object deleted_event, processed = True, processed_at = Some 2,
          error = None, received_at = Some 1\<rparr>]\<rparr>)"
proof -
  have "rows_with_id (ev_id deleted_event) db0 = []"
    by (simp add: rows_with_id_def db0_def)
  from process_event_db_active [OF this] show ?thesis
    by (simp add: deleted_once)
qed

section \<open>Recording, dispatch and outcome of an event\<close>

text \<open>
  C4. For every event given to \<^verbatim>\<open>process_event\<close>, the audit row (gateway event id,
  type, payload, received timestamp, \<open>processed = False\<close>) is committed before any
  handler, custom or default, executes. The database the dispatched handler is applied to
  is the one in which that row is the last row of the table; the user table and the result
  of \<^verbatim>\<open>process_event\<close> are what the handler produces on that database; two custom
  handlers that agree on every database holding the row make \<^verbatim>\<open>process_event\<close>
  behave alike, whatever they would do on a database without it; and the row is in the
  table at the end, on either path.
\<close>

theorem row_committed_before_handler:
  "on_record event tr
     (session_add (webhook_event_model (ev_id event) (ev_type event) (ev_object event) tr) d) \<and>
   webhook_events
     (session_add (webhook_event_model (ev_id event) (ev_type event) (ev_object event) tr) d) =
     webhook_events d @
       [\<lparr>stripe_event_id = ev_id event, event_type = ev_type event, data = ev_object event,
         processed = False, processed_at = None, error = None, received_at = Some tr\<rparr>] \<and>
   users (snd (process_event self tr tp event d)) =
     snd (dispatch_handler self (ev_type event) (ev_object event)
       (session_add (webhook_event_model (ev_id event) (ev_type event) (ev_object event) tr) d)) \<and>
   fst (process_event self tr tp event d) =
     (fst (dispatch_handler self (ev_type event) (ev_object event)
       (session_add (webhook_event_model (ev_id event) (ev_type event) (ev_object event) tr) d))
      = Returned) \<and>
   (\<forall>h h'. (\<forall>x. on_record event tr x \<longrightarrow> h (ev_object event) x = h' (ev_object event) x) \<longrightarrow>
      process_event (register_handler (ev_type event) h self) tr tp event d =
      process_event (register_handler (ev_type event) h' self) tr tp event d) \<and>
   (\<exists>r. webhook_events (snd (process_event self tr tp event d)) = webhook_events d @ [r] \<and>
        stripe_event_id r = ev_id event \<and> event_type r = ev_type event \<and>
        data r = ev_object event \<and> received_at r = Some tr)"
proof -
  let ?row = "webhook_event_model (ev_id event) (ev_type event) (ev_object event) tr"
  let ?d1 = "session_add ?row d"
  have rec: "on_record event tr ?d1"
    by (simp add: on_record_def session_add_def)
  have tab: "webhook_events ?d1 = webhook_events d @
       [\<lparr>stripe_event_id = ev_id event, event_type = ev_type event, data = ev_object event,
         processed = False, processed_at = None, error = None, received_at = Some tr\<rparr>]"
    by (simp add: session_add_def webhook_event_model_def)
  have us: "users (snd (process_event self tr tp event d)) =
     snd (dispatch_handler self (ev_type event) (ev_object event) ?d1)"
    by (simp add: process_event_cases split: prod.splits outcome.splits)
  have res: "fst (process_event self tr tp event d) =
     (fst (dispatch_handler self (ev_type event) (ev_object event) ?d1) = Returned)"
    by (simp add: process_event_cases split: prod.splits outcome.splits)
  have ext: "\<forall>h h'. (\<forall>x. on_record event tr x \<longrightarrow> h (ev_object event) x = h' (ev_object event) x) \<longrightarrow>
      process_event (register_handler (ev_type event) h self) tr tp event d =
      process_event (register_handler (ev_type event) h' self) tr tp event d"
  proof (intro allI impI)
    fix h h' :: handler
    assume agree: "\<forall>x. on_record event tr x \<longrightarrow> h (ev_object event) x = h' (ev_object event) x"
    with rec have "h (ev_object event) ?d1 = h' (ev_object event) ?d1" by blast
    then show "process_event (register_handler (ev_type event) h self) tr tp event d =
      process_event (register_handler (ev_type event) h' self) tr tp event d"
      by (simp add: process_event_cases dispatch_handler_def register_handler_def)
  qed
  have fin: "\<exists>r. webhook_events (snd (process_event self tr tp event d)) = webhook_events d @ [r] \<and>
        stripe_event_id r = ev_id event \<and> event_type r = ev_type event \<and>
        data r = ev_object event \<and> received_at r = Some tr"
    by (simp add: process_event_cases webhook_event_model_def split: prod.splits outcome.splits)
  from rec tab us res ext fin show ?thesis by blast
qed

theorem row_committed_before_handler_witness:
  "audit_checking_handler (ev_object deleted_event) db0 \<noteq> idle_handler (ev_object deleted_event) db0 \<and>
   process_event (register_handler (ev_type deleted_event) audit_checking_handler manager0)
       1 2 deleted_event db0 =
   process_event (register_handler (ev_type deleted_event) idle_handler manager0)
       1 2 deleted_event db0 \<and>
   fst (process_event (register_handler (ev_type deleted_event) audit_checking_handler manager0)
       1 2 deleted_event db0) = True"
proof -
  have agree: "\<forall>x. on_record deleted_event 1 x \<longrightarrow>
      audit_checking_handler (ev_object deleted_event) x = idle_handler (ev_object deleted_event) x"
    by (simp add: on_record_def audit_checking_handler_def idle_handler_def)
  have differ: "audit_checking_handler (ev_object deleted_event) db0 \<noteq>
      idle_handler (ev_object deleted_event) db0"
    by (simp add: audit_checking_handler_def idle_handler_def db0_def)
  from row_committed_before_handler [of deleted_event 1 db0 manager0 2] agree
  have same: "process_event (register_handler (ev_type deleted_event) audit_checking_handler manager0)
       1 2 deleted_event db0 =
     process_event (register_handler (ev_type deleted_event) idle_handler manager0)
       1 2 deleted_event db0"
    by blast
  have ok: "fst (process_event (register_handler (ev_type deleted_event) idle_handler manager0)
       1 2 deleted_event db0) = True"
    by (simp add: process_event_cases dispatch_handler_def register_handler_def idle_handler_def)
  from differ same ok show ?thesis by simp
qed

text \<open>
  C10. \<^verbatim>\<open>process_event\<close> touches one row, the one it appends. On the success path the
  row is processed, has its processing time and no error; on the failure path it has an
  error, is not processed and has no processing time. So if every row of the table shows
  exclusive outcomes before the call, every row does after it.
\<close>

theorem outcomes_exclusive:
  "(\<exists>r. webhook_events (snd (process_event self tr tp event d)) = webhook_events d @ [r] \<and>
        (if fst (process_event self tr tp event d)
         then processed r \<and> processed_at r = Some tp \<and> error r = None
         else \<not> processed r \<and> processed_at r = None \<and> error r \<noteq> None)) \<and>
   ((\<forall>r \<in> set (webhook_events d). outcome_exclusive r) \<longrightarrow>
    (\<forall>r \<in> set (webhook_events (snd (process_event self tr tp event d))). outcome_exclusive r))"
proof -
  from process_event_outcomes [of self tr tp event d]
  obtain r where r: "webhook_events (snd (process_event self tr tp event d)) = webhook_events d @ [r]"
    "if fst (process_event self tr tp event d)
        then processed r \<and> processed_at r = Some tp \<and> error r = None
        else \<not> processed r \<and> processed_at r = None \<and> error r \<noteq> None"
    "outcome_exclusive r" by blast
  from r(1,2) have first: "\<exists>r. webhook_events (snd (process_event self tr tp event d)) = webhook_events d @ [r] \<and>
        (if fst (process_event self tr tp event d)
         then processed r \<and> processed_at r = Some tp \<and> error r = None
         else \<not> processed r \<and> processed_at r = None \<and> error r \<noteq> None)" by blast
  from r(1,3) have second: "(\<forall>r \<in> set (webhook_events d). outcome_exclusive r) \<longrightarrow>
    (\<forall>r \<in> set (webhook_events (snd (process_event self tr tp event d))). outcome_exclusive r)"
    by simp
  from first second show ?thesis by blast
qed

theorem outcomes_exclusive_witness:
  "webhook_events (snd (process_event manager0 1 2 deleted_event db0)) =
     [\<lparr>stripe_event_id = ''evt_1'', event_type = ''customer.subscription.deleted'',
       data = ev_object deleted_event, processed = True, processed_at = Some 2,
       error = None, received_at = Some 1\<rparr>] \<and>
   list_all outcome_exclusive (webhook_events (snd (process_event manager0 1 2 deleted_event db0))) \<and>
   list_all outcome_exclusive (webhook_events (snd (process_event manager0 3 4 invoice_event_no_id
        (snd (process_event manager0 1 2 deleted_event db0))))) \<and>
   length (webhook_events (snd (process_event manager0 3 4 invoice_event_no_id
        (snd (process_event manager0 1 2 deleted_event db0))))) = 2"
proof -
  have e1: "webhook_events (snd (process_event manager0 1 2 deleted_event db0)) =
     [\<lparr>stripe_event_id = ''evt_1'', event_type = ''customer.subscription.deleted'',
       data = ev_object deleted_event, processed = True, processed_at = Some 2,
       error = None, received_at = Some 1\<rparr>]"
    by (simp add: process_event_def Let_def session_add_def dispatch_handler_def manager0_def
        handle_default_event_def handle_subscription_deleted_def deleted_event_def db0_def
        webhook_event_model_def split: option.splits)
  have inv1: "\<forall>r \<in> set (webhook_events (snd (process_event manager0 1 2 deleted_event db0))).
      outcome_exclusive r"
    by (simp add: e1 outcome_exclusive_def)
  from outcomes_exclusive [of manager0 3 4 invoice_event_no_id
      "snd (process_event manager0 1 2 deleted_event db0)"] inv1
  have inv2: "\<forall>r \<in> set (webhook_events (snd (process_event manager0 3 4 invoice_event_no_id
        (snd (process_event manager0 1 2 deleted_event db0))))). outcome_exclusive r"
    and len: "length (webhook_events (snd (process_event manager0 3 4 invoice_event_no_id
        (snd (process_event manager0 1 2 deleted_event db0))))) = 2"
    by (auto simp: e1)
  show ?thesis using e1 inv1 inv2 len by (simp add: list_all_iff)
qed

text \<open>
  C5. For an event whose type has a registered custom handler, the dispatch step is that
  handler and nothing else: it yields what the handler yields, its return or its
  exception. \<^verbatim>\<open>process_event\<close> is thereby determined by that handler alone: it
  succeeds with the user table the handler leaves when the handler returns, and fails
  with the handler's exception message in the row when it raises. The collaborators the
  default handlers call play no part. Registering a handler for a type that already has
  one replaces it.
\<close>

theorem custom_handler_takes_precedence:
  assumes "event_handlers self (ev_type event) = Some h"
  shows "(\<forall>x. dispatch_handler self (ev_type event) (ev_object event) x = h (ev_object event) x) \<and>
     process_event self tr tp event d =
     (case h (ev_object event)
             (session_add (webhook_event_model (ev_id event) (ev_type event) (ev_object event) tr) d) of
        (Returned, us) \<Rightarrow>
          (True, \<lparr>users = us, webhook_events = webhook_events d @
             [\<lparr>stripe_event_id = ev_id event, event_type = ev_type event, data = ev_object event,
               processed = True, processed_at = Some tp, error = None, received_at = Some tr\<rparr>]\<rparr>)
      | (Raised e, us) \<Rightarrow>
          (False, \<lparr>users = us, webhook_events = webhook_events d @
             [\<lparr>stripe_event_id = ev_id event, event_type = ev_type event, data = ev_object event,
               processed = False, processed_at = None, error = Some e, received_at = Some tr\<rparr>]\<rparr>)) \<and>
     (\<forall>f g c. process_event
         (self\<lparr>update_user_subscription := f, Subscription_retrieve := g, construct_event := c\<rparr>)
         tr tp event d = process_event self tr tp event d) \<and>
     (\<forall>h1 h2. event_handlers (register_handler (ev_type event) h2
                  (register_handler (ev_type event) h1 self)) (ev_type event) = Some h2 \<and>
        process_event (register_handler (ev_type event) h2
                  (register_handler (ev_type event) h1 self)) tr tp event d =
        process_event (register_handler (ev_type event) h2 self) tr tp event d)"
proof -
  have a: "process_event self tr tp event d =
     (case h (ev_object event)
             (session_add (webhook_event_model (ev_id event) (ev_type event) (ev_object event) tr) d) of
        (Returned, us) \<Rightarrow>
          (True, \<lparr>users = us, webhook_events = webhook_events d @
             [\<lparr>stripe_event_id = ev_id event, event_type = ev_type event, data = ev_object event,
               processed = True, processed_at = Some tp, error = None, received_at = Some tr\<rparr>]\<rparr>)
      | (Raised e, us) \<Rightarrow>
          (False, \<lparr>users = us, webhook_events = webhook_events d @
             [\<lparr>stripe_event_id = ev_id event, event_type = ev_type event, data = ev_object event,
               processed = False, processed_at = None, error = Some e, received_at = Some tr\<rparr>]\<rparr>))"
    using assms
    by (simp add: process_event_cases dispatch_handler_def webhook_event_model_def
        split: prod.splits outcome.splits)
  have b: "\<forall>f g c. process_event
         (self\<lparr>update_user_subscription := f, Subscription_retrieve := g, construct_event := c\<rparr>)
         tr tp event d = process_event self tr tp event d"
    using assms by (simp add: process_event_cases dispatch_handler_def)
  have c: "\<forall>h1 h2. event_handlers (register_handler (ev_type event) h2
                  (register_handler (ev_type event) h1 self)) (ev_type event) = Some h2 \<and>
        process_event (register_handler (ev_type event) h2
                  (register_handler (ev_type event) h1 self)) tr tp event d =
        process_event (register_handler (ev_type event) h2 self) tr tp event d"
    by (simp add: process_event_cases dispatch_handler_def register_handler_def)
  have z: "\<forall>x. dispatch_handler self (ev_type event) (ev_object event) x = h (ev_object event) x"
    using assms by (simp add: dispatch_handler_def)
  from z a b c show ?thesis by blast
qed

theorem custom_handler_takes_precedence_witness:
  "event_handlers (register_handler ''customer.subscription.deleted'' idle_handler manager0)
     (ev_type deleted_event) = Some idle_handler \<and>
   process_event (register_handler ''customer.subscription.deleted'' idle_handler manager0)
     1 2 deleted_event db0 =
     (True, \<lparr>users = [alice, bob], webhook_events =
        [\<lparr>stripe_event_id = ''evt_1'', event_type = ''customer.subscription.deleted'',
          data = ev_object deleted_event, processed = True, processed_at = Some 2,
          error = None, received_at = Some 1\<rparr>]\<rparr>) \<and>
   users (snd (process_event manager0 1 2 deleted_event db0)) = [cancel_user alice, bob] \<and>
   cancel_user alice \<noteq> alice \<and>
   process_event (register_handler ''customer.subscription.deleted'' failing_handler manager0)
     1 2 deleted_event db0 =
     (False, \<lparr>users = [alice, bob], webhook_events =
        [\<lparr>stripe_event_id = ''evt_1'', event_type = ''customer.subscription.deleted'',
          data = ev_object deleted_event, processed = False, processed_at = None,
          error = Some ''unknown customer'', received_at = Some 1\<rparr>]\<rparr>)"
proof -
  have reg: "event_handlers (register_handler ''customer.subscription.deleted'' idle_handler manager0)
     (ev_type deleted_event) = Some idle_handler"
    by (simp add: register_handler_def deleted_event_def)
  have reg': "event_handlers (register_handler ''customer.subscription.deleted'' failing_handler manager0)
     (ev_type deleted_event) = Some failing_handler"
    by (simp add: register_handler_def deleted_event_def)
  have dflt: "users (snd (process_event manager0 1 2 deleted_event db0)) = [cancel_user alice, bob]"
  proof -
    have "dispatch_handler manager0 (ev_type deleted_event) (ev_object deleted_event)
        (session_add (webhook_event_model (ev_id deleted_event) (ev_type deleted_event)
           (ev_object deleted_event) 1) db0) = (Returned, [cancel_user alice, bob])"
      by (simp add: dispatch_handler_def manager0_def handle_default_event_def
          handle_subscription_deleted_def query_first_def dict_get_def deleted_event_def db0_def
          session_add_def alice_def bob_def)
    from process_event_Returned [OF this] show ?thesis by simp
  qed
  have neq: "cancel_user alice \<noteq> alice"
    by (simp add: cancel_user_def alice_def)
  from custom_handler_takes_precedence [OF reg, of 1 2 db0]
    custom_handler_takes_precedence [OF reg', of 1 2 db0] reg dflt neq
  show ?thesis
    by (simp add: idle_handler_def failing_handler_def session_add_def db0_def deleted_event_def)
qed

section \<open>The default handlers\<close>

text \<open>
  C6. For the user that the lookup of a \<^verbatim>\<open>customer.subscription.deleted\<close> event
  returns, the handler sets \<^verbatim>\<open>plan_status\<close> to \<^verbatim>\<open>'canceled'\<close> and
  \<^verbatim>\<open>stripe_subscription_id\<close> to \<^verbatim>\<open>None\<close>, and leaves every other field of
  that user, the period and trial fields among them, and every other user as they were.
  With no custom handler registered for the type, this is the user table
  \<^verbatim>\<open>process_event\<close> leaves.
\<close>

theorem subscription_deleted_frame:
  assumes "query_first (dict_get subscription ''customer'') (users d) = Some i"
  shows "i < length (users d) \<and>
         matches_customer (dict_get subscription ''customer'') (users d ! i) \<and>
         handle_subscription_deleted self subscription d =
           (Returned, (users d)[i := (users d ! i)\<lparr>plan_status := Some ''canceled'',
                                                  stripe_subscription_id := None\<rparr>]) \<and>
         (\<forall>u'. u' = snd (handle_subscription_deleted self subscription d) ! i \<longrightarrow>
            plan_status u' = Some ''canceled'' \<and> stripe_subscription_id u' = None \<and>
            current_period_start u' = current_period_start (users d ! i) \<and>
            current_period_end u' = current_period_end (users d ! i) \<and>
            trial_start u' = trial_start (users d ! i) \<and>
            trial_end u' = trial_end (users d ! i) \<and>
            user_id u' = user_id (users d ! i) \<and>
            stripe_customer_id u' = stripe_customer_id (users d ! i) \<and>
            plan_name u' = plan_name (users d ! i) \<and>
            cancel_at_period_end u' = cancel_at_period_end (users d ! i) \<and>
            subscription_metadata u' = subscription_metadata (users d ! i)) \<and>
         length (snd (handle_subscription_deleted self subscription d)) = length (users d) \<and>
         (\<forall>j. j \<noteq> i \<longrightarrow>
            snd (handle_subscription_deleted self subscription d) ! j = users d ! j) \<and>
         (\<forall>sid tr tp. event_handlers self ''customer.subscription.deleted'' = None \<longrightarrow>
            fst (process_event self tr tp
              \<lparr>ev_id = sid, ev_type = ''customer.subscription.deleted'', ev_object = subscription\<rparr> d)
              = True \<and>
            users (snd (process_event self tr tp
              \<lparr>ev_id = sid, ev_type = ''customer.subscription.deleted'', ev_object = subscription\<rparr> d))
              = (users d)[i := (users d ! i)\<lparr>plan_status := Some ''canceled'',
                                               stripe_subscription_id := None\<rparr>])"
proof -
  from assms have i: "i < length (users d)"
    and m: "matches_customer (dict_get subscription ''customer'') (users d ! i)"
    using first_index_Some [of "matches_customer (dict_get subscription ''customer'')" "users d" i]
    by (simp_all add: query_first_def)
  have h: "handle_subscription_deleted self subscription x =
           (Returned, (users d)[i := (users d ! i)\<lparr>plan_status := Some ''canceled'',
                                                  stripe_subscription_id := None\<rparr>])"
    if "users x = users d" for x
    using assms that by (simp add: handle_subscription_deleted_def cancel_user_def)
  have f: "\<forall>u'. u' = snd (handle_subscription_deleted self subscription d) ! i \<longrightarrow>
            plan_status u' = Some ''canceled'' \<and> stripe_subscription_id u' = None \<and>
            current_period_start u' = current_period_start (users d ! i) \<and>
            current_period_end u' = current_period_end (users d ! i) \<and>
            trial_start u' = trial_start (users d ! i) \<and>
            trial_end u' = trial_end (users d ! i) \<and>
            user_id u' = user_id (users d ! i) \<and>
            stripe_customer_id u' = stripe_customer_id (users d ! i) \<and>
            plan_name u' = plan_name (users d ! i) \<and>
            cancel_at_period_end u' = cancel_at_period_end (users d ! i) \<and>
            subscription_metadata u' = subscription_metadata (users d ! i)"
    using i by (simp add: h)
  have p: "\<forall>sid tr tp. event_handlers self ''customer.subscription.deleted'' = None \<longrightarrow>
            fst (process_event self tr tp
              \<lparr>ev_id = sid, ev_type = ''customer.subscription.deleted'', ev_object = subscription\<rparr> d)
              = True \<and>
            users (snd (process_event self tr tp
              \<lparr>ev_id = sid, ev_type = ''customer.subscription.deleted'', ev_object = subscription\<rparr> d))
              = (users d)[i := (users d ! i)\<lparr>plan_status := Some ''canceled'',
                                               stripe_subscription_id := None\<rparr>]"
    by (simp add: process_event_cases dispatch_handler_def handle_default_event_def
        h users_session_add)
  have o: "length (snd (handle_subscription_deleted self subscription d)) = length (users d) \<and>
         (\<forall>j. j \<noteq> i \<longrightarrow>
            snd (handle_subscription_deleted self subscription d) ! j = users d ! j)"
    by (simp add: h)
  from i m h [of d] f o p show ?thesis by blast
qed

theorem subscription_deleted_frame_witness:
  "query_first (dict_get (ev_object deleted_event) ''customer'') (users db0) = Some 0 \<and>
   handle_subscription_deleted manager0 (ev_object deleted_event) db0 =
     (Returned,
      [\<lparr>user_id = 1, stripe_customer_id = Some ''cus_1'',
        stripe_subscription_id = None, plan_name = Some ''pro'',
        plan_status = Some ''canceled'', current_period_start = Some 100,
        current_period_end = Some 200, cancel_at_period_end = Some False,
        trial_start = Some 50, trial_end = Some 100, subscription_metadata = None\<rparr>, bob]) \<and>
   plan_status alice = Some ''active'' \<and> stripe_subscription_id alice = Some ''sub_1''"
proof -
  have q: "query_first (dict_get (ev_object deleted_event) ''customer'') (users db0) = Some 0"
    by (simp add: query_first_def dict_get_def deleted_event_def db0_def alice_def)
  from subscription_deleted_frame [OF q, of manager0] q show ?thesis
    by (simp add: db0_def alice_def)
qed




section \<open>Redelivery\<close>

text \<open>
  C1. With the gateway event id unique in the audit table, at most one row exists for
  every gateway event id, and \<^verbatim>\<open>process_event\<close> keeps it so. An event whose id is
  already on record is refused at the first commit, before any handler is called: no row
  is created, no effect is applied, and the database stays as it was. In particular, after
  a first delivery of an event with a new id, whatever its outcome, exactly one row
  carries the id, and every further delivery of the event, to whatever manager and in
  whatever session state, leaves the database as the first delivery left it.
\<close>

theorem redelivery_is_refused:
  "(rows_with_id (ev_id event) d \<noteq> [] \<longrightarrow>
      process_event_db self tr tp event s d = (Inl IntegrityError, d)) \<and>
   (rows_with_id (ev_id event) d = [] \<longrightarrow>
      length (rows_with_id (ev_id event) (snd (process_event_db self tr tp event s d))) = 1 \<and>
      (\<forall>self' tr' tp' s'.
         process_event_db self' tr' tp' event s' (snd (process_event_db self tr tp event s d)) =
           (Inl IntegrityError, snd (process_event_db self tr tp event s d)))) \<and>
   ((\<forall>sid. length (rows_with_id sid d) \<le> 1) \<longrightarrow>
      (\<forall>sid. length (rows_with_id sid (snd (process_event_db self tr tp event s d))) \<le> 1))"
proof -
  let ?d' = "snd (process_event_db self tr tp event s d)"
  have refused: "rows_with_id (ev_id event) d \<noteq> [] \<longrightarrow>
      process_event_db self tr tp event s d = (Inl IntegrityError, d)"
    by (simp add: process_event_db_refused)
  have once: "length (rows_with_id (ev_id event) ?d') = 1 \<and>
      (\<forall>self' tr' tp' s'. process_event_db self' tr' tp' event s' ?d' = (Inl IntegrityError, ?d'))"
    if fresh: "rows_with_id (ev_id event) d = []"
  proof -
    from rows_with_id_recorded [OF fresh, of "ev_id event" self tr tp s] fresh
    have len: "length (rows_with_id (ev_id event) ?d') = 1" by simp
    then have "rows_with_id (ev_id event) ?d' \<noteq> []" by auto
    then have "\<forall>self' tr' tp' s'. process_event_db self' tr' tp' event s' ?d' = (Inl IntegrityError, ?d')"
      by (simp add: process_event_db_refused)
    with len show ?thesis by simp
  qed
  have inv: "\<forall>sid. length (rows_with_id sid ?d') \<le> 1"
    if one: "\<forall>sid. length (rows_with_id sid d) \<le> 1"
  proof (cases "rows_with_id (ev_id event) d = []")
    case True
    show ?thesis
    proof
      fix sid
      from rows_with_id_recorded [OF True, of sid self tr tp s] True one
      show "length (rows_with_id sid ?d') \<le> 1"
        by (cases "sid = ev_id event") simp_all
    qed
  next
    case False
    with one show ?thesis by (simp add: process_event_db_refused)
  qed
  from refused once inv show ?thesis by blast
qed

theorem redelivery_is_refused_witness:
  "rows_with_id (ev_id deleted_event) db0 = [] \<and>
   process_event_db manager0 1 2 deleted_event Active db0 =
     (Inr True, \<lparr>users = [cancel_user alice, bob], webhook_events =
        [\<lparr>stripe_event_id = ''evt_1'', event_type = ''customer.subscription.deleted'',
          data = ev_object deleted_event, processed = True, processed_at = Some 2,
          error = None, received_at = Some 1\<rparr>]\<rparr>) \<and>
   process_event_db manager0 3 4 deleted_event Active
       (snd (process_event_db manager0 1 2 deleted_event Active db0)) =
     (Inl IntegrityError, \<lparr>users = [cancel_user alice, bob], webhook_events =
        [\<lparr>stripe_event_id = ''evt_1'', event_type = ''customer.subscription.deleted'',
          data = ev_object deleted_event, processed = True, processed_at = Some 2,
          error = None, received_at = Some 1\<rparr>]\<rparr>) \<and>
   length (rows_with_id ''evt_1''
     (snd (process_event_db manager0 3 4 deleted_event Active
        (snd (process_event_db manager0 1 2 deleted_event Active db0))))) = 1"
proof -
  have fresh: "rows_with_id (ev_id deleted_event) db0 = []"
    by (simp add: rows_with_id_def db0_def)
  note inst = redelivery_is_refused [of deleted_event db0 manager0 1 2 Active]
  from inst fresh
  have second: "process_event_db manager0 3 4 deleted_event Active
       (snd (process_event_db manager0 1 2 deleted_event Active db0)) =
     (Inl IntegrityError, snd (process_event_db manager0 1 2 deleted_event Active db0))"
    by blast
  from inst fresh
  have one: "length (rows_with_id (ev_id deleted_event)
      (snd (process_event_db manager0 1 2 deleted_event Active db0))) = 1"
    by blast
  have i: "ev_id deleted_event = ''evt_1''"
    by (simp add: deleted_event_def)
  from fresh second one i show ?thesis
    by (simp add: deleted_once_db)
qed

section \<open>A handler failure that leaves the session inactive\<close>

text \<open>
  C3 fails on the code when the handler's exception comes from a write the database
  refused. Here a \<^verbatim>\<open>customer.subscription.created\<close> event arrives for the known
  customer \<^verbatim>\<open>cus_1\<close>, the default handler finds the user and calls
  \<^verbatim>\<open>update_user_subscription\<close>, whose flush fails. The \<^verbatim>\<open>except\<close> branch assigns
  \<^verbatim>\<open>error\<close> and commits without a rollback, that commit raises, and the exception
  leaves \<^verbatim>\<open>process_event\<close>: no failure result is returned, and the stored row keeps
  \<open>processed = False\<close> with no error.
\<close>

theorem failed_flush_leaves_no_error:
  "query_first (dict_get (ev_object created_event) ''customer'') (users db0) = Some 0 \<and>
   dispatch_handler locked_manager (ev_type created_event) (ev_object created_event)
     (session_add (webhook_event_model (ev_id created_event) (ev_type created_event)
        (ev_object created_event) 1) db0) =
     (Raised ''(sqlite3.OperationalError) database is locked'', [alice, bob]) \<and>
   process_event_db locked_manager 1 2 created_event Inactive db0 =
     (Inl PendingRollbackError, \<lparr>users = [alice, bob], webhook_events =
        [\<lparr>stripe_event_id = ''evt_5'', event_type = ''customer.subscription.created'',
          data = ev_object created_event, processed = False, processed_at = None,
          error = None, received_at = Some 1\<rparr>]\<rparr>)"
proof -
  have q: "query_first (dict_get (ev_object created_event) ''customer'') (users db0) = Some 0"
    by (simp add: query_first_def dict_get_def created_event_def db0_def alice_def)
  have disp: "dispatch_handler locked_manager (ev_type created_event) (ev_object created_event)
     (session_add (webhook_event_model (ev_id created_event) (ev_type created_event)
        (ev_object created_event) 1) db0) =
     (Raised ''(sqlite3.OperationalError) database is locked'', [alice, bob])"
    using q
    by (simp add: dispatch_handler_def locked_manager_def manager0_def handle_default_event_def
        handle_subscription_created_def update_flush_fails_def session_add_def
        created_event_def db0_def)
  have fresh: "rows_with_id (ev_id created_event) db0 = []"
    by (simp add: rows_with_id_def db0_def)
  from process_event_db_inactive [OF fresh, of locked_manager 1 2] disp q show ?thesis
    by (simp add: created_event_def db0_def)
qed

section \<open>Rejected deliveries\<close>

text \<open>
  C9, as stated, fails when no webhook secret is configured: the route answers 500 before
  it verifies anything, so a malformed delivery does not get a client-error status.
\<close>

theorem unconfigured_secret_counterexample:
  "construct_event manager0 [] None ''whsec'' = ValueError ''Expecting value'' \<and>
   verify_webhook manager0 [] None ''whsec'' = None \<and>
   webhook manager0 None 1 2 [] None db0 = (500, db0) \<and>
   \<not> client_error (fst (webhook manager0 None 1 2 [] None db0))"
  by (simp add: webhook_def verify_webhook_def manager0_def sample_construct_event_def
      client_error_def)

text \<open>
  C9, amended. For every delivery whose payload is malformed or whose signature does not
  verify, \<^verbatim>\<open>verify_webhook\<close> yields no event. The route answers 400 when a webhook
  secret is configured and 500 when none is (or it is empty); in each case the database
  is returned as it was, so no row was created and \<^verbatim>\<open>process_event\<close>, which always
  changes the database, was not invoked.
\<close>

theorem unverified_delivery_rejected:
  assumes "construct_event wm payload sig_header secret = ValueError e \<or>
           construct_event wm payload sig_header secret = SignatureVerificationError e"
  shows "verify_webhook wm payload sig_header secret = None \<and>
         webhook wm (Some secret) tr tp payload sig_header d = (if secret = [] then 500 else 400, d) \<and>
         webhook wm None tr tp payload sig_header d = (500, d) \<and>
         (secret \<noteq> [] \<longrightarrow>
            client_error (fst (webhook wm (Some secret) tr tp payload sig_header d))) \<and>
         \<not> client_error (fst (webhook wm None tr tp payload sig_header d)) \<and>
         (\<forall>event t1 t2. snd (process_event wm t1 t2 event d) \<noteq> d)"
proof -
  from assms have v: "verify_webhook wm payload sig_header secret = None"
    by (auto simp: verify_webhook_def)
  then have w: "webhook wm (Some secret) tr tp payload sig_header d = (if secret = [] then 500 else 400, d)"
    by (simp add: webhook_def)
  have n: "webhook wm None tr tp payload sig_header d = (500, d)"
    by (simp add: webhook_def)
  from w have c: "secret \<noteq> [] \<longrightarrow>
      client_error (fst (webhook wm (Some secret) tr tp payload sig_header d))"
    by (simp add: client_error_def)
  from n have s: "\<not> client_error (fst (webhook wm None tr tp payload sig_header d))"
    by (simp add: client_error_def)
  from v w n c s process_event_changes_db show ?thesis by blast
qed

theorem unverified_delivery_rejected_witness:
  "verify_webhook manager0 ''{}'' (Some ''forged'') ''whsec'' = None \<and>
   webhook manager0 (Some ''whsec'') 1 2 ''{}'' (Some ''forged'') db0 = (400, db0) \<and>
   client_error (fst (webhook manager0 (Some ''whsec'') 1 2 ''{}'' (Some ''forged'') db0)) \<and>
   verify_webhook manager0 [] (Some ''whsec'') ''whsec'' = None \<and>
   webhook manager0 (Some ''whsec'') 1 2 [] (Some ''whsec'') db0 = (400, db0) \<and>
   webhook manager0 None 1 2 ''{}'' (Some ''forged'') db0 = (500, db0)"
proof -
  have a: "construct_event manager0 ''{}'' (Some ''forged'') ''whsec''
             = ValueError ''No signatures found matching the expected signature'' \<or>
           construct_event manager0 ''{}'' (Some ''forged'') ''whsec''
             = SignatureVerificationError ''No signatures found matching the expected signature''"
    by (simp add: manager0_def sample_construct_event_def)
  have b: "construct_event manager0 [] (Some ''whsec'') ''whsec'' = ValueError ''Expecting value'' \<or>
           construct_event manager0 [] (Some ''whsec'') ''whsec''
             = SignatureVerificationError ''Expecting value''"
    by (simp add: manager0_def sample_construct_event_def)
  from unverified_delivery_rejected [OF a, of 1 2 db0] unverified_delivery_rejected [OF b, of 1 2 db0]
  show ?thesis by (simp add: client_error_def)
qed

end
